theory Spec2Isabelle
  imports Main "HOL-Library.Word"
begin

unbundle bit_operations_syntax

section \<open>Python values used by \<open>server/models.py\<close>\<close>

text \<open>
  A Python \<open>bytes\<close> object is a list of 8-bit words. A Python \<open>str\<close> is a list of
  Unicode code points (natural numbers below \<open>0x110000\<close>; lone surrogates are allowed
  in a \<open>str\<close>, as in Python).
\<close>

type_synonym byte = "8 word"
type_synonym bytes = "byte list"
type_synonym str = "nat list"

text \<open>The exceptions the modelled code can raise.\<close>

datatype error =
    ValueError
  | TypeError
  | UnicodeEncodeError
  | DatabaseError

subsection \<open>\<open>str.encode()\<close>: UTF-8\<close>

text \<open>
  \<open>password.encode()\<close> encodes with UTF-8 in strict mode: a surrogate code point
  (\<open>0xD800 .. 0xDFFF\<close>) raises \<open>UnicodeEncodeError\<close>. A number from \<open>0x110000\<close> on is
  not a code point of any \<open>str\<close>; the model refuses it the same way.
\<close>

definition utf8_char :: "nat \<Rightarrow> error + bytes" where
  "utf8_char c =
     (if c < 0x80 then Inr [of_nat c]
      else if c < 0x800 then
        Inr [of_nat (0xC0 + c div 64), of_nat (0x80 + c mod 64)]
      else if 0xD800 \<le> c \<and> c < 0xE000 then Inl UnicodeEncodeError
      else if c < 0x10000 then
        Inr [of_nat (0xE0 + c div 4096), of_nat (0x80 + c div 64 mod 64),
             of_nat (0x80 + c mod 64)]
      else if c < 0x110000 then
        Inr [of_nat (0xF0 + c div 262144), of_nat (0x80 + c div 4096 mod 64),
             of_nat (0x80 + c div 64 mod 64), of_nat (0x80 + c mod 64)]
      else Inl UnicodeEncodeError)"

fun encode :: "str \<Rightarrow> error + bytes" where
  "encode [] = Inr []"
| "encode (c # cs) =
     (case utf8_char c of
        Inl e \<Rightarrow> Inl e
      | Inr b \<Rightarrow> (case encode cs of Inl e \<Rightarrow> Inl e | Inr bs \<Rightarrow> Inr (b @ bs)))"

section \<open>The hash behind \<open>hashlib.pbkdf2_hmac('sha3-256', ...)\<close>\<close>

subsection \<open>Keccak-f[1600]\<close>

text \<open>
  The state is 25 lanes of 64 bits; lane \<open>(x, y)\<close> is at index \<open>x + 5 * y\<close>.
\<close>

type_synonym lane = "64 word"

definition keccak_rc :: "lane list" where
  "keccak_rc =
     [0x0000000000000001, 0x0000000000008082, 0x800000000000808A, 0x8000000080008000,
      0x000000000000808B, 0x0000000080000001, 0x8000000080008081, 0x8000000000008009,
      0x000000000000008A, 0x0000000000000088, 0x0000000080008009, 0x000000008000000A,
      0x000000008000808B, 0x800000000000008B, 0x8000000000008089, 0x8000000000008003,
      0x8000000000008002, 0x8000000000000080, 0x000000000000800A, 0x800000008000000A,
      0x8000000080008081, 0x8000000000008080, 0x0000000080000001, 0x8000000080008008]"

definition rot_offsets :: "nat list" where
  "rot_offsets =
     [ 0,  1, 62, 28, 27,
      36, 44,  6, 55, 20,
       3, 10, 43, 25, 39,
      41, 45, 15, 21,  8,
      18,  2, 61, 56, 14]"

definition theta :: "lane list \<Rightarrow> lane list" where
  "theta a =
     (let c = map (\<lambda>x. a ! x XOR a ! (x + 5) XOR a ! (x + 10) XOR a ! (x + 15)
                        XOR a ! (x + 20)) [0..<5];
          d = map (\<lambda>x. c ! ((x + 4) mod 5) XOR word_rotl 1 (c ! ((x + 1) mod 5))) [0..<5]
      in map (\<lambda>i. a ! i XOR d ! (i mod 5)) [0..<25])"

definition rho_pi :: "lane list \<Rightarrow> lane list" where
  "rho_pi a =
     map (\<lambda>i. let x = i mod 5; y = i div 5; j = (x + 3 * y) mod 5 + 5 * x
               in word_rotl (rot_offsets ! j) (a ! j)) [0..<25]"

definition chi :: "lane list \<Rightarrow> lane list" where
  "chi b =
     map (\<lambda>i. let x = i mod 5; y = i div 5
               in b ! i XOR (NOT (b ! ((x + 1) mod 5 + 5 * y))
                             AND b ! ((x + 2) mod 5 + 5 * y))) [0..<25]"

definition iota :: "lane \<Rightarrow> lane list \<Rightarrow> lane list" where
  "iota rc a = a[0 := a ! 0 XOR rc]"

definition keccak_round :: "lane \<Rightarrow> lane list \<Rightarrow> lane list" where
  "keccak_round rc a = iota rc (chi (rho_pi (theta a)))"

definition keccak_f :: "lane list \<Rightarrow> lane list" where
  "keccak_f a = foldl (\<lambda>s rc. keccak_round rc s) a keccak_rc"

subsection \<open>SHA3-256: rate 136 bytes, 32 bytes of output\<close>

definition le64 :: "bytes \<Rightarrow> lane" where
  "le64 bs = foldr (\<lambda>b w. ucast b OR push_bit 8 w) bs 0"

definition bytes_le :: "lane \<Rightarrow> bytes" where
  "bytes_le w = map (\<lambda>i. ucast (drop_bit (8 * i) w)) [0..<8]"

definition sha3_pad :: "bytes \<Rightarrow> bytes" where
  "sha3_pad m =
     (let q = 136 - length m mod 136
      in if q = 1 then m @ [0x86] else m @ [0x06] @ replicate (q - 2) 0 @ [0x80])"

definition xor_block :: "lane list \<Rightarrow> bytes \<Rightarrow> lane list" where
  "xor_block st block =
     map (\<lambda>i. if i < 17 then st ! i XOR le64 (take 8 (drop (8 * i) block)) else st ! i)
       [0..<25]"

fun absorb :: "nat \<Rightarrow> lane list \<Rightarrow> bytes \<Rightarrow> lane list" where
  "absorb 0 st bs = st"
| "absorb (Suc n) st bs = absorb n (keccak_f (xor_block st (take 136 bs))) (drop 136 bs)"

definition sha3_256 :: "bytes \<Rightarrow> bytes" where
  "sha3_256 m =
     (let p = sha3_pad m;
          st = absorb (length p div 136) (replicate 25 0) p
      in concat (map (\<lambda>i. bytes_le (st ! i)) [0..<4]))"

subsection \<open>HMAC and PBKDF2\<close>

text \<open>
  HMAC with block size 136 (the \<open>block_size\<close> of \<open>sha3-256\<close>): a key longer than a
  block is hashed first, and the key is then padded with zero bytes to a full block.
\<close>

definition hmac_key :: "bytes \<Rightarrow> bytes" where
  "hmac_key key =
     (let k = (if length key > 136 then sha3_256 key else key)
      in k @ replicate (136 - length k) 0)"

definition hmac :: "bytes \<Rightarrow> bytes \<Rightarrow> bytes" where
  "hmac key msg =
     (let k = hmac_key key
      in sha3_256 (map (\<lambda>b. b XOR 0x5C) k @ sha3_256 (map (\<lambda>b. b XOR 0x36) k @ msg)))"

definition xor_bytes :: "bytes \<Rightarrow> bytes \<Rightarrow> bytes" where
  "xor_bytes a b = map2 (XOR) a b"

text \<open>
  \<open>pbkdf2_hmac(name, password, salt, iterations)\<close> with the default \<open>dklen\<close> (the digest
  size, 32): one output block, \<open>U\<^sub>1 XOR ... XOR U\<^sub>c\<close>, where \<open>U\<^sub>1\<close> is the HMAC of the
  salt followed by the big-endian block number 1 and each later \<open>U\<close> is the HMAC of the
  one before. \<open>iterations < 1\<close> raises \<open>ValueError\<close>.
\<close>

fun pbkdf2_rounds :: "bytes \<Rightarrow> nat \<Rightarrow> bytes \<Rightarrow> bytes \<Rightarrow> bytes" where
  "pbkdf2_rounds pw 0 prev rkey = rkey"
| "pbkdf2_rounds pw (Suc n) prev rkey =
     (let u = hmac pw prev in pbkdf2_rounds pw n u (xor_bytes rkey u))"

definition pbkdf2_hmac :: "bytes \<Rightarrow> bytes \<Rightarrow> nat \<Rightarrow> error + bytes" where
  "pbkdf2_hmac pw salt iterations =
     (if iterations < 1 then Inl ValueError
      else let u = hmac pw (salt @ [0, 0, 0, 1])
           in Inr (take 32 (pbkdf2_rounds pw (iterations - 1) u u)))"

section \<open>Credential hasher\<close>

text \<open>
  \<open>os.urandom(n)\<close> reads \<open>n\<close> bytes from the operating system's entropy source. The
  source is an endless stream of bytes; a read returns the next \<open>n\<close> and the rest.
\<close>

type_synonym entropy = "nat \<Rightarrow> byte"

definition urandom :: "nat \<Rightarrow> entropy \<Rightarrow> bytes \<times> entropy" where
  "urandom n src = (map src [0..<n], (\<lambda>i. src (i + n)))"

text \<open>\<open>hmac.compare_digest\<close> on two \<open>bytes\<close> objects: equality, in constant time.\<close>

definition compare_digest :: "bytes \<Rightarrow> bytes \<Rightarrow> bool" where
  "compare_digest a b = (a = b)"

text \<open>
  \<^verbatim>\<open>
  def hash_password(password: str) -> str:
      salt = os.urandom(32)
      key = hashlib.pbkdf2_hmac('sha3-256', password.encode(), salt, 100_000)
      return salt + key
  \<close>
\<close>

definition hash_password :: "str \<Rightarrow> entropy \<Rightarrow> (error + bytes) \<times> entropy" where
  "hash_password password src =
     (let (salt, src') = urandom 32 src
      in case encode password of
           Inl e \<Rightarrow> (Inl e, src')
         | Inr pw \<Rightarrow>
             (case pbkdf2_hmac pw salt 100000 of
                Inl e \<Rightarrow> (Inl e, src')
              | Inr key \<Rightarrow> (Inr (salt @ key), src')))"

text \<open>
  \<^verbatim>\<open>
  def check_password(password: str, hashed: str) -> bool:
      salt = hashed[:32]
      key = hashed[32:]
      attempt_key = hashlib.pbkdf2_hmac(
          'sha3-256', password.encode(), salt, 100_000
      )
      return hmac.compare_digest(key, attempt_key)
  \<close>
  Slicing never raises: a blob shorter than 32 bytes gives a short salt and an empty key.
\<close>

definition check_password :: "str \<Rightarrow> bytes \<Rightarrow> error + bool" where
  "check_password password hashed =
     (let salt = take 32 hashed;
          key = drop 32 hashed
      in case encode password of
           Inl e \<Rightarrow> Inl e
         | Inr pw \<Rightarrow>
             (case pbkdf2_hmac pw salt 100000 of
                Inl e \<Rightarrow> Inl e
              | Inr attempt_key \<Rightarrow> Inr (compare_digest key attempt_key)))"

text \<open>Example inputs: the passwords \<open>"abc"\<close> and \<open>"abc\x00"\<close>, and two entropy sources.\<close>

definition pw_abc :: str where
  "pw_abc = [97, 98, 99]"

definition pw_abc_nul :: str where
  "pw_abc_nul = [97, 98, 99, 0]"

definition zero_entropy :: entropy where
  "zero_entropy = (\<lambda>i. 0)"

definition one_entropy :: entropy where
  "one_entropy = (\<lambda>i. 1)"

section \<open>Enumerated domain types\<close>

text \<open>
  The four \<open>enum.Enum\<close> classes. Every member is declared with \<open>enum.auto()\<close>, so the
  members of a class carry the values 1, 2, 3, ... in the order of their declaration.
  \<open>Winner\<close> and \<open>Conclusion\<close> both have a member \<open>GAME_NOT_COMPLETE\<close>, and \<open>Winner\<close>
  repeats the names of \<open>Side\<close>: those constructors carry the class name.
\<close>

datatype winner = Winner_GAME_NOT_COMPLETE | Winner_HOME | Winner_AWAY | Winner_DRAW

datatype conclusion =
    Conclusion_GAME_NOT_COMPLETE
  | CHECKMATE
  | RESIGN
  | TIME
  | STALEMATE
  | THREEFOLD_REPETITION
  | FIFTY_MOVE_RULE
  | AGREED_DRAW

datatype piece_type = PAWN | ROOK | KNIGHT | BISHOP | QUEEN | KING

datatype side = HOME | AWAY

text \<open>
  An enum class, as \<open>EnumField\<close> uses it, is the list of its (value, member) pairs;
  \<open>auto\<close> numbers the members from 1.
\<close>

type_synonym 'e enum_class = "(int \<times> 'e) list"

definition auto :: "'e list \<Rightarrow> 'e enum_class" where
  "auto members = zip (map int [1..<Suc (length members)]) members"

definition Winner :: "winner enum_class" where
  "Winner = auto [Winner_GAME_NOT_COMPLETE, Winner_HOME, Winner_AWAY, Winner_DRAW]"

definition Conclusion :: "conclusion enum_class" where
  "Conclusion =
     auto [Conclusion_GAME_NOT_COMPLETE, CHECKMATE, RESIGN, TIME, STALEMATE,
           THREEFOLD_REPETITION, FIFTY_MOVE_RULE, AGREED_DRAW]"

definition PieceType :: "piece_type enum_class" where
  "PieceType = auto [PAWN, ROOK, KNIGHT, BISHOP, QUEEN, KING]"

definition Side :: "side enum_class" where
  "Side = auto [HOME, AWAY]"

text \<open>
  \<^verbatim>\<open>
  def __invert__(self) -> Side:
      if self == Side.HOME:
          return Side.AWAY
      return Side.HOME
  \<close>
\<close>

definition invert :: "side \<Rightarrow> side" where
  "invert self = (if self = HOME then AWAY else HOME)"

text \<open>
  Calling an enum class on a value, \<open>options(number)\<close>, returns the member with that
  value and raises \<open>ValueError\<close> when there is none (also for \<open>None\<close>).
\<close>

definition enum_call :: "'e enum_class \<Rightarrow> int option \<Rightarrow> error + 'e" where
  "enum_call options number =
     (case number of
        None \<Rightarrow> Inl ValueError
      | Some n \<Rightarrow> (case map_of options n of None \<Rightarrow> Inl ValueError | Some m \<Rightarrow> Inr m))"

text \<open>
  \<^verbatim>\<open>
  def python_value(self, raw: typing.Any) -> enum.Enum:
      number = super().python_value(raw)
      return self.options(number)
  \<close>
  The raw value is what the small-integer column holds: an integer, or \<open>None\<close> for SQL
  NULL. The inherited \<open>python_value\<close> of an integer field passes \<open>None\<close> through and
  converts anything else with \<open>int\<close>, which leaves an integer as it is.
\<close>

definition python_value :: "'e enum_class \<Rightarrow> int option \<Rightarrow> error + 'e" where
  "python_value options raw = (let number = raw in enum_call options number)"

section \<open>Models\<close>

text \<open>
  A \<open>datetime\<close> is a point in time and a \<open>timedelta\<close> (the value of an interval
  field) a span of time, both counted in microseconds. \<open>datetime.datetime.now()\<close> reads
  the clock: the clock is the endless sequence of its future readings.
\<close>

type_synonym datetime = int
type_synonym timedelta = int
type_synonym clock = "nat \<Rightarrow> datetime"

definition now :: "clock \<Rightarrow> datetime \<times> clock" where
  "now clk = (clk 0, (\<lambda>i. clk (Suc i)))"

text \<open>The fields of \<open>User\<close>; \<open>user_id\<close> is the primary key \<open>id\<close> that peewee adds.\<close>

record user =
  user_id :: "int option"
  username :: str
  password_hash :: bytes
  email :: str
  email_verified :: bool
  elo :: int
  avatar :: "bytes option"
  created_at :: datetime

text \<open>
  \<open>TurnCounter(game)\<close> keeps nothing but a reference to its game. In the model the
  counter is a mark on the game that owns it, and the methods of the counter take that
  game's state.
\<close>

datatype turn_counter = TurnCounter

text \<open>
  The fields of \<open>Game\<close>, each with the value the object holds in memory; \<open>None\<close> is
  Python's \<open>None\<close>, which any attribute of an object can hold. \<open>game_id\<close> is the primary
  key \<open>id\<close> that peewee adds, \<open>u_turn_number\<close> is the field \<open>_turn_number\<close>, and
  \<open>turn_number\<close> is the attribute that \<open>__init__\<close> binds to the turn counter.
\<close>

record game =
  game_id :: "int option"
  host :: "user option"
  away :: "user option"
  current_turn :: "side option"
  u_turn_number :: "int option"
  mode :: "int option"
  starting_time :: "timedelta option"
  time_per_turn :: "timedelta option"
  home_time :: "timedelta option"
  away_time :: "timedelta option"
  home_offering_draw :: "bool option"
  away_offering_draw :: "bool option"
  winner :: "winner option"
  conclusion_type :: "conclusion option"
  opened_at :: "datetime option"
  last_turn :: "datetime option"
  started_at :: "datetime option"
  ended_at :: "datetime option"
  turn_number :: "turn_counter option"

subsection \<open>Persistence\<close>

text \<open>
  \<open>self.save()\<close> is peewee's \<open>Model.save\<close>, running against the PostgreSQL database.
  The database is a parameter of the model: a provider gives the two statements that
  \<open>save\<close> issues. \<open>insert_row\<close> stores a new row and returns its primary key;
  \<open>update_row\<close> rewrites the row with the given key. Either can fail, which raises.
\<close>

record 'db provider =
  insert_row :: "game \<Rightarrow> 'db \<Rightarrow> error + (int \<times> 'db)"
  update_row :: "int \<Rightarrow> game \<Rightarrow> 'db \<Rightarrow> error + 'db"

text \<open>
  \<open>Model.save\<close>: an object without a primary key is inserted and takes the key of its
  new row; an object with a primary key updates its row. An exception leaves the object
  as it was when \<open>save\<close> was called.
\<close>

definition save :: "'db provider \<Rightarrow> game \<times> 'db \<Rightarrow> (error + unit) \<times> game \<times> 'db" where
  "save prov s =
     (let (self, db) = s
      in case game_id self of
           None \<Rightarrow>
             (case insert_row prov self db of
                Inl e \<Rightarrow> (Inl e, self, db)
              | Inr (pk, db') \<Rightarrow> (Inr (), self\<lparr>game_id := Some pk\<rparr>, db'))
         | Some pk \<Rightarrow>
             (case update_row prov pk self db of
                Inl e \<Rightarrow> (Inl e, self, db)
              | Inr db' \<Rightarrow> (Inr (), self, db')))"

subsection \<open>\<open>TurnCounter\<close>\<close>

text \<open>
  \<^verbatim>\<open>
  def __int__(self) -> int:
      return self.game._turn_number
  \<close>
\<close>

definition TurnCounter_int :: "game \<Rightarrow> int option" where
  "TurnCounter_int g = u_turn_number g"

text \<open>
  \<^verbatim>\<open>
  def __iadd__(self, value: int):
      if value != 1:
          raise ValueError(
              'Cannot increment the turn counter by more than one.'
          )
      self.game._turn_number += 1
      self.game.current_turn = ~self.game.current_turn
      self.game.save()
  \<close>
  \<open>None += 1\<close> and \<open>~None\<close> raise \<open>TypeError\<close>. An exception leaves the assignments made
  before it in place. The method returns \<open>None\<close>.
\<close>

definition TurnCounter_iadd ::
  "'db provider \<Rightarrow> int \<Rightarrow> game \<times> 'db \<Rightarrow> (error + unit) \<times> game \<times> 'db" where
  "TurnCounter_iadd prov value s =
     (let (g, db) = s
      in if value \<noteq> 1 then (Inl ValueError, g, db)
         else case u_turn_number g of
                None \<Rightarrow> (Inl TypeError, g, db)
              | Some n \<Rightarrow>
                  (let g1 = g\<lparr>u_turn_number := Some (n + 1)\<rparr>
                   in case current_turn g1 of
                        None \<Rightarrow> (Inl TypeError, g1, db)
                      | Some t \<Rightarrow> save prov (g1\<lparr>current_turn := Some (invert t)\<rparr>, db)))"

text \<open>
  \<open>n\<close> turn advances in a row, each \<open>__iadd__(1)\<close> on the counter of the same game; the
  first exception ends the run.
\<close>

fun advances :: "'db provider \<Rightarrow> nat \<Rightarrow> game \<times> 'db \<Rightarrow> (error + unit) \<times> game \<times> 'db" where
  "advances prov 0 s = (Inr (), s)"
| "advances prov (Suc n) s =
     (case advances prov n s of
        (Inl e, s') \<Rightarrow> (Inl e, s')
      | (Inr u, s') \<Rightarrow> TurnCounter_iadd prov 1 s')"

subsection \<open>\<open>Game\<close>\<close>

text \<open>
  The keyword arguments of the constructor: for every field, \<open>None\<close> when the argument
  is not given and \<open>Some v\<close> when it is given with the value \<open>v\<close> (which may be Python's
  \<open>None\<close>). \<open>no_default\<close> is peewee's \<open>__no_default__\<close>, which peewee passes when it
  builds an object from a row.
\<close>

record game_kwargs =
  no_default :: bool
  kw_game_id :: "int option option"
  kw_host :: "user option option"
  kw_away :: "user option option"
  kw_current_turn :: "side option option"
  kw_u_turn_number :: "int option option"
  kw_mode :: "int option option"
  kw_starting_time :: "timedelta option option"
  kw_time_per_turn :: "timedelta option option"
  kw_home_time :: "timedelta option option"
  kw_away_time :: "timedelta option option"
  kw_home_offering_draw :: "bool option option"
  kw_away_offering_draw :: "bool option option"
  kw_winner :: "winner option option"
  kw_conclusion_type :: "conclusion option option"
  kw_opened_at :: "datetime option option"
  kw_last_turn :: "datetime option option"
  kw_started_at :: "datetime option option"
  kw_ended_at :: "datetime option option"

text \<open>
  peewee's \<open>Model.__init__\<close>: the object starts from the defaults of the field
  declarations (from nothing under \<open>__no_default__\<close>), then every keyword argument is
  assigned to its attribute. A field with no default that is not given reads as \<open>None\<close>.
  The default of \<open>opened_at\<close> is the callable \<open>datetime.datetime.now\<close>, called when the
  defaults are collected.
\<close>

definition field_init :: "bool \<Rightarrow> 'a option \<Rightarrow> 'a option option \<Rightarrow> 'a option" where
  "field_init nd dflt given =
     (case given of Some v \<Rightarrow> v | None \<Rightarrow> if nd then None else dflt)"

definition Model_init :: "game_kwargs \<Rightarrow> clock \<Rightarrow> game \<times> clock" where
  "Model_init kw clk =
     (let nd = no_default kw;
          (t, clk') = (if nd then (None, clk) else (Some (fst (now clk)), snd (now clk)))
      in (\<lparr> game_id = field_init nd None (kw_game_id kw),
            host = field_init nd None (kw_host kw),
            away = field_init nd None (kw_away kw),
            current_turn = field_init nd (Some HOME) (kw_current_turn kw),
            u_turn_number = field_init nd (Some 1) (kw_u_turn_number kw),
            mode = field_init nd (Some 1) (kw_mode kw),
            starting_time = field_init nd None (kw_starting_time kw),
            time_per_turn = field_init nd None (kw_time_per_turn kw),
            home_time = field_init nd None (kw_home_time kw),
            away_time = field_init nd None (kw_away_time kw),
            home_offering_draw = field_init nd (Some False) (kw_home_offering_draw kw),
            away_offering_draw = field_init nd (Some False) (kw_away_offering_draw kw),
            winner = field_init nd (Some Winner_GAME_NOT_COMPLETE) (kw_winner kw),
            conclusion_type =
              field_init nd (Some Conclusion_GAME_NOT_COMPLETE) (kw_conclusion_type kw),
            opened_at = field_init nd t (kw_opened_at kw),
            last_turn = field_init nd None (kw_last_turn kw),
            started_at = field_init nd None (kw_started_at kw),
            ended_at = field_init nd None (kw_ended_at kw),
            turn_number = None \<rparr>,
          clk'))"

text \<open>
  \<^verbatim>\<open>
  def __init__(self, *args, **kwargs):
      super().__init__(*args, **kwargs)
      self.turn_number = TurnCounter(self)
      self.home_time = self.starting_time
      self.away_time = self.starting_time
  \<close>
\<close>

definition Game_init :: "game_kwargs \<Rightarrow> clock \<Rightarrow> game \<times> clock" where
  "Game_init kw clk =
     (let (self, clk') = Model_init kw clk;
          self = self\<lparr>turn_number := Some TurnCounter\<rparr>;
          self = self\<lparr>home_time := starting_time self\<rparr>;
          self = self\<lparr>away_time := starting_time self\<rparr>
      in (self, clk'))"

text \<open>
  \<^verbatim>\<open>
  def start_game(self, away: User):
      self.away = away
      self.started_at = datetime.datetime.now()
      self.last_turn = datetime.datetime.now()
      self.save()
  \<close>
\<close>

definition start_game ::
  "'db provider \<Rightarrow> user \<Rightarrow> game \<times> 'db \<times> clock \<Rightarrow> (error + unit) \<times> game \<times> 'db \<times> clock" where
  "start_game prov away_user s =
     (let (self, db, clk) = s;
          self = self\<lparr>away := Some away_user\<rparr>;
          (t1, clk) = now clk;
          self = self\<lparr>started_at := Some t1\<rparr>;
          (t2, clk) = now clk;
          self = self\<lparr>last_turn := Some t2\<rparr>
      in case save prov (self, db) of (r, self, db) \<Rightarrow> (r, self, db, clk))"

subsection \<open>Example inputs\<close>

text \<open>
  A database kept in memory, as a provider: the table is the list of its rows, a new
  row gets the next number as its key.
\<close>

definition mem_insert :: "game \<Rightarrow> game list \<Rightarrow> error + (int \<times> game list)" where
  "mem_insert g db = Inr (int (length db) + 1, db @ [g\<lparr>game_id := Some (int (length db) + 1)\<rparr>])"

definition mem_update :: "int \<Rightarrow> game \<Rightarrow> game list \<Rightarrow> error + game list" where
  "mem_update pk g db = Inr (map (\<lambda>row. if game_id row = Some pk then g else row) db)"

definition mem_provider :: "game list provider" where
  "mem_provider = \<lparr> insert_row = mem_insert, update_row = mem_update \<rparr>"

definition clock0 :: clock where
  "clock0 = (\<lambda>i. 1000 + int i)"

definition user1 :: user where
  "user1 = \<lparr> user_id = Some 1, username = [117, 49], password_hash = [], email = [97],
             email_verified = False, elo = 1000, avatar = None, created_at = 0 \<rparr>"

definition user2 :: user where
  "user2 = \<lparr> user_id = Some 2, username = [117, 50], password_hash = [], email = [98],
             email_verified = False, elo = 1000, avatar = None, created_at = 0 \<rparr>"

definition user3 :: user where
  "user3 = \<lparr> user_id = Some 3, username = [117, 51], password_hash = [], email = [99],
             email_verified = False, elo = 1000, avatar = None, created_at = 0 \<rparr>"

text \<open>No argument given, and the arguments of the scenario: a host and the two times.\<close>

definition no_kwargs :: game_kwargs where
  "no_kwargs =
     \<lparr> no_default = False, kw_game_id = None, kw_host = None, kw_away = None,
       kw_current_turn = None, kw_u_turn_number = None, kw_mode = None,
       kw_starting_time = None, kw_time_per_turn = None, kw_home_time = None,
       kw_away_time = None, kw_home_offering_draw = None, kw_away_offering_draw = None,
       kw_winner = None, kw_conclusion_type = None, kw_opened_at = None,
       kw_last_turn = None, kw_started_at = None, kw_ended_at = None \<rparr>"

definition new_kwargs :: game_kwargs where
  "new_kwargs =
     no_kwargs\<lparr> kw_host := Some (Some user1), kw_starting_time := Some (Some 600000000),
                kw_time_per_turn := Some (Some 5000000) \<rparr>"

text \<open>The arguments of a stored row read back: every field given, clocks run down.\<close>

definition row_kwargs :: game_kwargs where
  "row_kwargs =
     \<lparr> no_default = True, kw_game_id = Some (Some 7), kw_host = Some (Some user1),
       kw_away = Some (Some user2), kw_current_turn = Some (Some AWAY),
       kw_u_turn_number = Some (Some 4), kw_mode = Some (Some 1),
       kw_starting_time = Some (Some 600000000), kw_time_per_turn = Some (Some 5000000),
       kw_home_time = Some (Some 480000000), kw_away_time = Some (Some 515000000),
       kw_home_offering_draw = Some (Some False), kw_away_offering_draw = Some (Some True),
       kw_winner = Some (Some Winner_GAME_NOT_COMPLETE),
       kw_conclusion_type = Some (Some Conclusion_GAME_NOT_COMPLETE),
       kw_opened_at = Some (Some 10), kw_last_turn = Some (Some 40),
       kw_started_at = Some (Some 20), kw_ended_at = Some None \<rparr>"

definition new_game :: game where
  "new_game = fst (Game_init new_kwargs clock0)"

definition started_game :: game where
  "started_game = fst (Game_init row_kwargs clock0)"

section \<open>The credential hasher: verified properties\<close>

subsection \<open>The derived key is always 32 bytes long\<close>

lemma length_bytes_le: "length (bytes_le w) = 8"
  by (simp add: bytes_le_def)

lemma length_sha3_256: "length (sha3_256 m) = 32"
  by (simp add: sha3_256_def Let_def length_concat length_bytes_le comp_def sum_list_triv)

lemma length_hmac: "length (hmac k m) = 32"
  by (simp add: hmac_def Let_def length_sha3_256)

lemma length_pbkdf2_rounds:
  "length rkey = 32 \<Longrightarrow> length (pbkdf2_rounds pw n prev rkey) = 32"
  by (induction n arbitrary: prev rkey) (simp_all add: Let_def xor_bytes_def length_hmac)

lemma pbkdf2_hmac_returns:
  "\<exists>k. pbkdf2_hmac pw salt 100000 = Inr k \<and> length k = 32"
  by (simp add: pbkdf2_hmac_def Let_def length_pbkdf2_rounds length_hmac)

lemma length_urandom: "length (fst (urandom n src)) = n"
  by (simp add: urandom_def)

subsection \<open>A trailing NUL does not change an HMAC key\<close>

lemma hmac_key_nul: "length k < 136 \<Longrightarrow> hmac_key (k @ [0]) = hmac_key k"
proof -
  assume a: "length k < 136"
  then have "136 - length k = Suc (136 - Suc (length k))" by arith
  with a show ?thesis
    by (simp add: hmac_key_def Let_def)
qed

lemma hmac_nul: "length k < 136 \<Longrightarrow> hmac (k @ [0]) m = hmac k m"
  by (simp add: hmac_def hmac_key_nul)

lemma pbkdf2_rounds_nul:
  "length k < 136 \<Longrightarrow> pbkdf2_rounds (k @ [0]) n prev rkey = pbkdf2_rounds k n prev rkey"
  by (induction n arbitrary: prev rkey) (simp_all add: hmac_nul)

lemma pbkdf2_hmac_nul:
  "length k < 136 \<Longrightarrow> pbkdf2_hmac (k @ [0]) salt n = pbkdf2_hmac k salt n"
  by (simp add: pbkdf2_hmac_def hmac_nul pbkdf2_rounds_nul)

lemma encode_abc: "encode pw_abc = Inr [97, 98, 99]"
  by (simp add: pw_abc_def utf8_char_def)

lemma encode_abc_nul: "encode pw_abc_nul = Inr ([97, 98, 99] @ [0])"
  by (simp add: pw_abc_nul_def utf8_char_def)

subsection \<open>Hashing and checking\<close>

lemma hash_password_shape:
  assumes "encode p = Inr pw"
  shows "\<exists>key. pbkdf2_hmac pw (fst (urandom 32 src)) 100000 = Inr key \<and> length key = 32 \<and>
           hash_password p src = (Inr (fst (urandom 32 src) @ key), snd (urandom 32 src))"
proof -
  obtain key where k: "pbkdf2_hmac pw (fst (urandom 32 src)) 100000 = Inr key" "length key = 32"
    using pbkdf2_hmac_returns by blast
  then show ?thesis using assms
    by (simp add: hash_password_def Let_def split_beta)
qed

lemma check_password_blob:
  assumes "encode p' = Inr pw'" "length salt = 32"
  shows "check_password p' (salt @ key) = Inr (Inr key = pbkdf2_hmac pw' salt 100000)"
proof -
  obtain k' where k: "pbkdf2_hmac pw' salt 100000 = Inr k'"
    using pbkdf2_hmac_returns by blast
  then show ?thesis using assms
    by (simp add: check_password_def Let_def compare_digest_def)
qed

text \<open>
  Claim C4, as amended. For every password \<open>p\<close> that can be encoded (so that
  \<open>hash_password\<close> returns), \<open>check_password\<close> of \<open>p\<close> against the blob that
  \<open>hash_password p\<close> returned is \<open>True\<close>. For any other encodable password \<open>p'\<close>,
  \<open>check_password\<close> against that blob returns whether \<open>p'\<close> derives, with the stored
  salt, the same key as \<open>p\<close>: it is \<open>False\<close> exactly when the two derived keys differ.
  That \<open>p'\<close> differs from \<open>p\<close> is not enough, see the counterexample below.
\<close>

theorem check_password_hash_password:
  assumes "encode p = Inr pw"
  shows "\<exists>blob. fst (hash_password p src) = Inr blob \<and>
           check_password p blob = Inr True \<and>
           (\<forall>p' pw'. encode p' = Inr pw' \<longrightarrow>
              check_password p' blob =
                Inr (pbkdf2_hmac pw' (fst (urandom 32 src)) 100000 =
                     pbkdf2_hmac pw (fst (urandom 32 src)) 100000))"
proof -
  let ?salt = "fst (urandom 32 src)"
  obtain key where k: "pbkdf2_hmac pw ?salt 100000 = Inr key"
    and h: "hash_password p src = (Inr (?salt @ key), snd (urandom 32 src))"
    using hash_password_shape [OF assms] by blast
  have len: "length ?salt = 32" by (rule length_urandom)
  have own: "check_password p (?salt @ key) = Inr True"
    using check_password_blob [OF assms len, of key] k by simp
  have other: "check_password p' (?salt @ key) =
      Inr (pbkdf2_hmac pw' ?salt 100000 = pbkdf2_hmac pw ?salt 100000)"
    if "encode p' = Inr pw'" for p' pw'
    using check_password_blob [OF that len, of key] k by (simp add: eq_commute)
  show ?thesis using h own other by simp
qed

theorem check_password_hash_password_witness:
  "encode pw_abc = Inr [97, 98, 99] \<and>
   (\<exists>blob. fst (hash_password pw_abc zero_entropy) = Inr blob \<and>
      check_password pw_abc blob = Inr True \<and>
      check_password pw_abc_nul blob =
        Inr (pbkdf2_hmac [97, 98, 99, 0] (fst (urandom 32 zero_entropy)) 100000 =
             pbkdf2_hmac [97, 98, 99] (fst (urandom 32 zero_entropy)) 100000))"
  using check_password_hash_password [OF encode_abc, of zero_entropy] encode_abc encode_abc_nul
  by auto

text \<open>
  Claim C4 as stated fails: the password \<open>"abc\x00"\<close> differs from \<open>"abc"\<close>, and it
  verifies against the hash of \<open>"abc"\<close> (here with the all-zero salt). HMAC pads a key
  shorter than its block with zero bytes, so both passwords give the same HMAC key.
\<close>

theorem check_password_nul_counterexample:
  "pw_abc_nul \<noteq> pw_abc \<and>
   fst (hash_password pw_abc zero_entropy) =
     Inr (replicate 32 0 @ projr (pbkdf2_hmac [97, 98, 99] (replicate 32 0) 100000)) \<and>
   check_password pw_abc_nul
     (replicate 32 0 @ projr (pbkdf2_hmac [97, 98, 99] (replicate 32 0) 100000)) = Inr True"
proof -
  let ?salt = "replicate 32 (0::byte)"
  have s: "fst (urandom 32 zero_entropy) = ?salt"
    by (simp add: urandom_def zero_entropy_def map_replicate_const)
  obtain key where k: "pbkdf2_hmac [97, 98, 99] ?salt 100000 = Inr key"
    using pbkdf2_hmac_returns by blast
  have h: "fst (hash_password pw_abc zero_entropy) = Inr (?salt @ key)"
    using hash_password_shape [OF encode_abc, of zero_entropy] s k by auto
  have "pbkdf2_hmac ([97, 98, 99] @ [0]) ?salt 100000 = Inr key"
    using pbkdf2_hmac_nul [of "[97, 98, 99]" ?salt 100000] k by simp
  then have c: "check_password pw_abc_nul (?salt @ key) = Inr True"
    using check_password_blob [OF encode_abc_nul, of ?salt key] by simp
  have d: "pw_abc_nul \<noteq> pw_abc" by (simp add: pw_abc_nul_def pw_abc_def)
  show ?thesis using d h c k by simp
qed

text \<open>
  Claim C5, as amended. A stored blob shorter than 64 bytes (the 32 bytes of salt and
  the 32 bytes of key) raises nothing: for every password that can be encoded,
  \<open>check_password\<close> returns \<open>False\<close>, as it does for a wrong password. The slices give
  a key of fewer than 32 bytes, which never equals the 32 bytes derived.
\<close>

theorem check_password_short_blob:
  assumes "length hashed < 64" "encode p = Inr pw"
  shows "check_password p hashed = Inr False"
proof -
  obtain k where k: "pbkdf2_hmac pw (take 32 hashed) 100000 = Inr k" "length k = 32"
    using pbkdf2_hmac_returns by blast
  from assms(1) have "length (drop 32 hashed) \<noteq> length k" using k(2) by simp
  then have "drop 32 hashed \<noteq> k" by auto
  with k(1) assms(2) show ?thesis
    by (simp add: check_password_def Let_def compare_digest_def)
qed

theorem check_password_short_blob_witness:
  "length ([1, 2, 3] :: bytes) < 64 \<and> encode pw_abc = Inr [97, 98, 99] \<and>
   check_password pw_abc [1, 2, 3] = Inr False"
  using check_password_short_blob [of "[1, 2, 3]" pw_abc "[97, 98, 99]"] encode_abc
  by simp

text \<open>
  Claim C5 as stated fails: against the empty blob, \<open>check_password\<close> of \<open>"abc"\<close>
  returns \<open>False\<close>; it does not raise.
\<close>

theorem check_password_empty_blob_counterexample:
  "check_password pw_abc [] = Inr False"
proof -
  obtain k where k: "pbkdf2_hmac [97, 98, 99] [] 100000 = Inr k" "length k = 32"
    using pbkdf2_hmac_returns by blast
  then have "k \<noteq> []" by auto
  with k(1) show ?thesis
    by (simp add: check_password_def Let_def compare_digest_def encode_abc)
qed

text \<open>
  Claim C9. Hashing the same password twice, where the two reads of the entropy source
  give different salts, returns two different blobs, and the password verifies against
  both.
\<close>

theorem hash_password_twice:
  assumes "encode p = Inr pw"
    and "fst (urandom 32 src1) \<noteq> fst (urandom 32 src2)"
  shows "\<exists>b1 b2. fst (hash_password p src1) = Inr b1 \<and> fst (hash_password p src2) = Inr b2 \<and>
           b1 \<noteq> b2 \<and> check_password p b1 = Inr True \<and> check_password p b2 = Inr True"
proof -
  let ?s1 = "fst (urandom 32 src1)" and ?s2 = "fst (urandom 32 src2)"
  obtain k1 where k1: "pbkdf2_hmac pw ?s1 100000 = Inr k1"
    and h1: "hash_password p src1 = (Inr (?s1 @ k1), snd (urandom 32 src1))"
    using hash_password_shape [OF assms(1)] by blast
  obtain k2 where k2: "pbkdf2_hmac pw ?s2 100000 = Inr k2"
    and h2: "hash_password p src2 = (Inr (?s2 @ k2), snd (urandom 32 src2))"
    using hash_password_shape [OF assms(1)] by blast
  have l1: "length ?s1 = 32" and l2: "length ?s2 = 32" by (rule length_urandom)+
  have ne: "?s1 @ k1 \<noteq> ?s2 @ k2" using assms(2) l1 l2 by simp
  have c1: "check_password p (?s1 @ k1) = Inr True"
    using check_password_blob [OF assms(1) l1, of k1] k1 by simp
  have c2: "check_password p (?s2 @ k2) = Inr True"
    using check_password_blob [OF assms(1) l2, of k2] k2 by simp
  show ?thesis using h1 h2 ne c1 c2 by simp
qed

theorem hash_password_twice_witness:
  "encode pw_abc = Inr [97, 98, 99] \<and>
   fst (urandom 32 zero_entropy) \<noteq> fst (urandom 32 one_entropy) \<and>
   (\<exists>b1 b2. fst (hash_password pw_abc zero_entropy) = Inr b1 \<and>
      fst (hash_password pw_abc one_entropy) = Inr b2 \<and>
      b1 \<noteq> b2 \<and> check_password pw_abc b1 = Inr True \<and> check_password pw_abc b2 = Inr True)"
proof -
  have d: "fst (urandom 32 zero_entropy) \<noteq> fst (urandom 32 one_entropy)"
    by (simp add: urandom_def zero_entropy_def one_entropy_def map_replicate_const)
  show ?thesis using hash_password_twice [OF encode_abc d] encode_abc d by simp
qed

section \<open>The turn counter: verified properties\<close>

subsection \<open>What \<open>save\<close> does to the object\<close>

lemma save_fields:
  "save prov (g, db) = (r, g', db') \<Longrightarrow> \<exists>k. g' = g\<lparr>game_id := k\<rparr>"
proof (cases "game_id g")
  case None
  assume "save prov (g, db) = (r, g', db')"
  with None show ?thesis
    by (cases "insert_row prov g db") (auto simp: save_def intro: exI [of _ None])
next
  case (Some pk)
  assume "save prov (g, db) = (r, g', db')"
  with Some have "g' = g"
    by (cases "update_row prov pk g db") (auto simp: save_def)
  with Some show ?thesis by (intro exI [of _ "Some pk"]) simp
qed

lemma save_persists:
  "save prov (g, db) = (Inr (), g', db') \<Longrightarrow>
     (case game_id g of
        None \<Rightarrow> \<exists>pk. insert_row prov g db = Inr (pk, db') \<and> g' = g\<lparr>game_id := Some pk\<rparr>
      | Some pk \<Rightarrow> update_row prov pk g db = Inr db' \<and> g' = g)"
  by (auto simp: save_def split: option.splits sum.splits prod.splits)

subsection \<open>One advance, then many\<close>

lemma iadd_step:
  assumes "TurnCounter_iadd prov 1 (g, db) = (Inr (), g', db')"
    and "u_turn_number g = Some t" and "current_turn g = Some c"
  shows "u_turn_number g' = Some (t + 1) \<and> current_turn g' = Some (invert c)"
proof -
  let ?g2 = "g\<lparr>u_turn_number := Some (t + 1), current_turn := Some (invert c)\<rparr>"
  from assms have "save prov (?g2, db) = (Inr (), g', db')"
    by (simp add: TurnCounter_iadd_def)
  then have "\<exists>k. g' = ?g2\<lparr>game_id := k\<rparr>" by (rule save_fields)
  then obtain k where "g' = ?g2\<lparr>game_id := k\<rparr>" ..
  then show ?thesis by simp
qed

lemma advances_from:
  assumes "advances prov n (g, db) = (Inr (), g', db')"
    and "u_turn_number g = Some t" and "current_turn g = Some c"
  shows "u_turn_number g' = Some (t + int n) \<and> current_turn g' = Some ((invert ^^ n) c)"
  using assms(1)
proof (induction n arbitrary: g' db')
  case 0
  with assms(2,3) show ?case by simp
next
  case (Suc n)
  obtain r g1 db1 where a: "advances prov n (g, db) = (r, g1, db1)"
    by (cases "advances prov n (g, db)") auto
  with Suc.prems have r: "r = Inr ()"
    and s: "TurnCounter_iadd prov 1 (g1, db1) = (Inr (), g', db')"
    by (cases r; simp)+
  from Suc.IH a r have "u_turn_number g1 = Some (t + int n)"
    "current_turn g1 = Some ((invert ^^ n) c)" by simp_all
  with iadd_step [OF s] show ?case by simp
qed

lemma invert_funpow: "(invert ^^ n) HOME = (if even n then HOME else AWAY)"
  by (induction n) (simp_all add: invert_def)

lemma new_game_eq:
  "new_game =
     \<lparr> game_id = None, host = Some user1, away = None, current_turn = Some HOME,
       u_turn_number = Some 1, mode = Some 1, starting_time = Some 600000000,
       time_per_turn = Some 5000000, home_time = Some 600000000,
       away_time = Some 600000000, home_offering_draw = Some False,
       away_offering_draw = Some False, winner = Some Winner_GAME_NOT_COMPLETE,
       conclusion_type = Some Conclusion_GAME_NOT_COMPLETE, opened_at = Some 1000,
       last_turn = None, started_at = None, ended_at = None,
       turn_number = Some TurnCounter \<rparr>"
  by (simp add: new_game_def Game_init_def Model_init_def new_kwargs_def no_kwargs_def
      field_init_def now_def clock0_def Let_def)

lemma started_game_eq:
  "started_game =
     \<lparr> game_id = Some 7, host = Some user1, away = Some user2, current_turn = Some AWAY,
       u_turn_number = Some 4, mode = Some 1, starting_time = Some 600000000,
       time_per_turn = Some 5000000, home_time = Some 600000000,
       away_time = Some 600000000, home_offering_draw = Some False,
       away_offering_draw = Some True, winner = Some Winner_GAME_NOT_COMPLETE,
       conclusion_type = Some Conclusion_GAME_NOT_COMPLETE, opened_at = Some 10,
       last_turn = Some 40, started_at = Some 20, ended_at = None,
       turn_number = Some TurnCounter \<rparr>"
  by (simp add: started_game_def Game_init_def Model_init_def row_kwargs_def
      field_init_def Let_def)

lemma advances_new_game:
  "advances mem_provider 3 (new_game, []) =
     (Inr (),
      new_game\<lparr>game_id := Some 1, u_turn_number := Some 4, current_turn := Some AWAY\<rparr>,
      [new_game\<lparr>game_id := Some 1, u_turn_number := Some 4, current_turn := Some AWAY\<rparr>])"
  by (simp add: eval_nat_numeral TurnCounter_iadd_def save_def mem_provider_def
      mem_insert_def mem_update_def new_game_eq invert_def Let_def)

text \<open>
  Claim C2. For every game whose turn number is 1 and whose current side is \<open>HOME\<close>,
  every database provider and every \<open>n\<close>: when \<open>n\<close> turn advances in a row all succeed,
  the turn number is \<open>1 + n\<close> afterwards (also as the counter's \<open>__int__\<close> reads it) and
  the current side is \<open>HOME\<close> for even \<open>n\<close> and \<open>AWAY\<close> for odd \<open>n\<close>.
\<close>

theorem advances_turn_and_side:
  assumes "advances prov n (g, db) = (Inr (), g', db')"
    and "u_turn_number g = Some 1" and "current_turn g = Some HOME"
  shows "u_turn_number g' = Some (1 + int n) \<and> TurnCounter_int g' = Some (1 + int n) \<and>
         current_turn g' = Some (if even n then HOME else AWAY)"
  using advances_from [OF assms] by (simp add: invert_funpow TurnCounter_int_def)

theorem advances_turn_and_side_witness:
  "advances mem_provider 3 (new_game, []) =
     (Inr (),
      new_game\<lparr>game_id := Some 1, u_turn_number := Some 4, current_turn := Some AWAY\<rparr>,
      [new_game\<lparr>game_id := Some 1, u_turn_number := Some 4, current_turn := Some AWAY\<rparr>]) \<and>
   u_turn_number new_game = Some 1 \<and> current_turn new_game = Some HOME \<and>
   u_turn_number
     (new_game\<lparr>game_id := Some 1, u_turn_number := Some 4, current_turn := Some AWAY\<rparr>) =
     Some (1 + int 3) \<and>
   current_turn
     (new_game\<lparr>game_id := Some 1, u_turn_number := Some 4, current_turn := Some AWAY\<rparr>) =
     Some (if even (3::nat) then HOME else AWAY)"
proof -
  have t: "u_turn_number new_game = Some 1" and c: "current_turn new_game = Some HOME"
    by (simp_all add: new_game_eq)
  show ?thesis
    using advances_turn_and_side [OF advances_new_game t c] advances_new_game t c by simp
qed

text \<open>
  Claim C3. For every integer other than 1, \<open>__iadd__\<close> raises \<open>ValueError\<close> and leaves
  the game (its turn number and current side with every other field) and the database
  exactly as they were.
\<close>

theorem TurnCounter_iadd_rejects:
  "value \<noteq> 1 \<Longrightarrow> TurnCounter_iadd prov value (g, db) = (Inl ValueError, g, db)"
  by (simp add: TurnCounter_iadd_def)

theorem TurnCounter_iadd_rejects_witness:
  "TurnCounter_iadd mem_provider 0 (started_game, []) = (Inl ValueError, started_game, []) \<and>
   TurnCounter_iadd mem_provider 2 (started_game, []) = (Inl ValueError, started_game, []) \<and>
   TurnCounter_iadd mem_provider (- 1) (started_game, []) = (Inl ValueError, started_game, [])"
  using TurnCounter_iadd_rejects [of 0 mem_provider started_game "[]"]
    TurnCounter_iadd_rejects [of 2 mem_provider started_game "[]"]
    TurnCounter_iadd_rejects [of "- 1" mem_provider started_game "[]"]
  by simp

section \<open>Starting a game: verified properties\<close>

lemma start_game_eq:
  "start_game prov u (g, db, clk) =
     (case save prov (g\<lparr>away := Some u, started_at := Some (clk 0),
                         last_turn := Some (clk 1)\<rparr>, db) of
        (r, g', db') \<Rightarrow> (r, g', db', (\<lambda>i. clk (Suc (Suc i)))))"
  by (simp add: start_game_def now_def Let_def)

lemma start_game_result:
  assumes "start_game prov u (g, db, clk) = (r, g', db', clk')"
  shows "save prov (g\<lparr>away := Some u, started_at := Some (clk 0),
                       last_turn := Some (clk 1)\<rparr>, db) = (r, g', db')"
  using assms by (simp add: start_game_eq split: prod.splits)

lemma start_new_game:
  "start_game mem_provider user2 (new_game, [], clock0) =
     (Inr (),
      new_game\<lparr>game_id := Some 1, away := Some user2, started_at := Some 1000,
               last_turn := Some 1001\<rparr>,
      [new_game\<lparr>game_id := Some 1, away := Some user2, started_at := Some 1000,
                last_turn := Some 1001\<rparr>],
      (\<lambda>i. clock0 (Suc (Suc i))))"
  by (simp add: start_game_eq save_def mem_provider_def mem_insert_def new_game_eq clock0_def)

lemma start_started_game:
  "start_game mem_provider user3 (started_game, [started_game], clock0) =
     (Inr (),
      started_game\<lparr>away := Some user3, started_at := Some 1000, last_turn := Some 1001\<rparr>,
      [started_game\<lparr>away := Some user3, started_at := Some 1000, last_turn := Some 1001\<rparr>],
      (\<lambda>i. clock0 (Suc (Suc i))))"
  by (simp add: start_game_eq save_def mem_provider_def mem_update_def started_game_eq
      clock0_def)

lemma user3_neq_user2: "user3 \<noteq> user2"
  by (simp add: user3_def user2_def)

text \<open>
  Claim C8. \<open>start_game\<close> on an open game (\<open>away\<close> is \<open>None\<close>) with a user: afterwards
  \<open>away\<close> is that user, so the game reads as in progress; \<open>started_at\<close> and \<open>last_turn\<close>
  hold the two readings of the clock, so neither is \<open>None\<close>; and the game is saved: the
  call ends with \<open>save\<close> on the game with these three fields set, and when \<open>save\<close>
  returns, the database is the result of inserting that game (when it had no primary
  key) or of updating its row.
\<close>

theorem start_game_open:
  assumes "away g = None"
    and "start_game prov u (g, db, clk) = (r, g', db', clk')"
  shows "away g' = Some u \<and> started_at g' = Some (clk 0) \<and> last_turn g' = Some (clk 1) \<and>
         away g' \<noteq> None \<and> started_at g' \<noteq> None \<and> last_turn g' \<noteq> None \<and>
         save prov (g\<lparr>away := Some u, started_at := Some (clk 0),
                       last_turn := Some (clk 1)\<rparr>, db) = (r, g', db') \<and>
         (r = Inr () \<longrightarrow>
            (case game_id g of
               None \<Rightarrow> \<exists>pk. insert_row prov
                               (g\<lparr>away := Some u, started_at := Some (clk 0),
                                   last_turn := Some (clk 1)\<rparr>) db = Inr (pk, db')
             | Some pk \<Rightarrow> update_row prov pk
                               (g\<lparr>away := Some u, started_at := Some (clk 0),
                                   last_turn := Some (clk 1)\<rparr>) db = Inr db'))"
proof -
  let ?g3 = "g\<lparr>away := Some u, started_at := Some (clk 0), last_turn := Some (clk 1)\<rparr>"
  have s: "save prov (?g3, db) = (r, g', db')" using assms(2) by (rule start_game_result)
  then have "\<exists>k. g' = ?g3\<lparr>game_id := k\<rparr>" by (rule save_fields)
  then obtain k where g': "g' = ?g3\<lparr>game_id := k\<rparr>" ..
  have p: "case game_id g of
             None \<Rightarrow> \<exists>pk. insert_row prov ?g3 db = Inr (pk, db')
           | Some pk \<Rightarrow> update_row prov pk ?g3 db = Inr db'" if "r = Inr ()"
    using save_persists [of prov ?g3 db g' db'] s that by (auto split: option.splits)
  from g' s p show ?thesis by simp
qed

theorem start_game_open_witness:
  "away new_game = None \<and>
   start_game mem_provider user2 (new_game, [], clock0) =
     (Inr (),
      new_game\<lparr>game_id := Some 1, away := Some user2, started_at := Some 1000,
               last_turn := Some 1001\<rparr>,
      [new_game\<lparr>game_id := Some 1, away := Some user2, started_at := Some 1000,
                last_turn := Some 1001\<rparr>],
      (\<lambda>i. clock0 (Suc (Suc i)))) \<and>
   away (new_game\<lparr>game_id := Some 1, away := Some user2, started_at := Some 1000,
                  last_turn := Some 1001\<rparr>) = Some user2 \<and>
   away (new_game\<lparr>game_id := Some 1, away := Some user2, started_at := Some 1000,
                  last_turn := Some 1001\<rparr>) \<noteq> None"
proof -
  have a: "away new_game = None" by (simp add: new_game_eq)
  show ?thesis using start_game_open [OF a start_new_game] a start_new_game by simp
qed

text \<open>
  Claim C1, as amended. \<open>start_game\<close> on a game whose \<open>away\<close> is already set does what
  it does on an open game: the call returns what the same call returns with \<open>away\<close>
  cleared first. It overwrites \<open>away\<close> with the given user, stamps \<open>started_at\<close> and
  \<open>last_turn\<close> with the two readings of the clock and ends with \<open>save\<close>, whose outcome is
  the outcome of the call; no other field changes, but for the primary key that a first
  \<open>save\<close> assigns.
\<close>

theorem start_game_started:
  assumes "away g = Some v"
    and "start_game prov u (g, db, clk) = (r, g', db', clk')"
  shows "start_game prov u (g, db, clk) = start_game prov u (g\<lparr>away := None\<rparr>, db, clk) \<and>
         save prov (g\<lparr>away := Some u, started_at := Some (clk 0),
                       last_turn := Some (clk 1)\<rparr>, db) = (r, g', db') \<and>
         g' = g\<lparr>away := Some u, started_at := Some (clk 0), last_turn := Some (clk 1),
                 game_id := game_id g'\<rparr>"
proof -
  let ?g3 = "g\<lparr>away := Some u, started_at := Some (clk 0), last_turn := Some (clk 1)\<rparr>"
  have s: "save prov (?g3, db) = (r, g', db')" using assms(2) by (rule start_game_result)
  then have "\<exists>k. g' = ?g3\<lparr>game_id := k\<rparr>" by (rule save_fields)
  then obtain k where g': "g' = ?g3\<lparr>game_id := k\<rparr>" ..
  then have k: "game_id g' = k" by simp
  have e: "start_game prov u (g, db, clk) = start_game prov u (g\<lparr>away := None\<rparr>, db, clk)"
    by (simp add: start_game_eq)
  from e s g' k show ?thesis by simp
qed

theorem start_game_started_witness:
  "away started_game = Some user2 \<and>
   start_game mem_provider user3 (started_game, [started_game], clock0) =
     start_game mem_provider user3 (started_game\<lparr>away := None\<rparr>, [started_game], clock0) \<and>
   fst (start_game mem_provider user3 (started_game, [started_game], clock0)) = Inr ()"
proof -
  have a: "away started_game = Some user2" by (simp add: started_game_eq)
  have e: "start_game mem_provider user3 (started_game, [started_game], clock0) =
      start_game mem_provider user3 (started_game\<lparr>away := None\<rparr>, [started_game], clock0)"
    using start_game_started [OF a start_started_game] by (rule conjunct1)
  have r: "fst (start_game mem_provider user3 (started_game, [started_game], clock0)) = Inr ()"
    by (simp add: start_started_game)
  show ?thesis by (intro conjI a e r)
qed

text \<open>
  Claim C1 as stated fails: on a game in progress, with \<open>user2\<close> as its away side,
  \<open>start_game\<close> with \<open>user3\<close> returns normally, and afterwards \<open>away\<close> is \<open>user3\<close> and
  \<open>started_at\<close> is the new reading of the clock instead of the stored one.
\<close>

theorem start_game_started_counterexample:
  "away started_game = Some user2 \<and>
   fst (start_game mem_provider user3 (started_game, [started_game], clock0)) = Inr () \<and>
   away (fst (snd (start_game mem_provider user3 (started_game, [started_game], clock0)))) =
     Some user3 \<and>
   Some user3 \<noteq> away started_game \<and>
   started_at (fst (snd (start_game mem_provider user3 (started_game, [started_game], clock0))))
     = Some 1000 \<and>
   started_at started_game = Some 20"
  using user3_neq_user2 by (simp add: start_started_game) (simp add: started_game_eq)

section \<open>The constructor: verified properties\<close>

lemma Game_init_eq:
  "fst (Game_init kw clk) =
     (fst (Model_init kw clk))\<lparr>turn_number := Some TurnCounter,
        home_time := starting_time (fst (Model_init kw clk)),
        away_time := starting_time (fst (Model_init kw clk))\<rparr>"
  by (simp add: Game_init_def Let_def split_beta)

lemma Model_init_fields:
  "game_id (fst (Model_init kw clk)) = field_init (no_default kw) None (kw_game_id kw)"
  "host (fst (Model_init kw clk)) = field_init (no_default kw) None (kw_host kw)"
  "away (fst (Model_init kw clk)) = field_init (no_default kw) None (kw_away kw)"
  "current_turn (fst (Model_init kw clk)) =
     field_init (no_default kw) (Some HOME) (kw_current_turn kw)"
  "u_turn_number (fst (Model_init kw clk)) =
     field_init (no_default kw) (Some 1) (kw_u_turn_number kw)"
  "mode (fst (Model_init kw clk)) = field_init (no_default kw) (Some 1) (kw_mode kw)"
  "starting_time (fst (Model_init kw clk)) =
     field_init (no_default kw) None (kw_starting_time kw)"
  "time_per_turn (fst (Model_init kw clk)) =
     field_init (no_default kw) None (kw_time_per_turn kw)"
  "home_offering_draw (fst (Model_init kw clk)) =
     field_init (no_default kw) (Some False) (kw_home_offering_draw kw)"
  "away_offering_draw (fst (Model_init kw clk)) =
     field_init (no_default kw) (Some False) (kw_away_offering_draw kw)"
  "winner (fst (Model_init kw clk)) =
     field_init (no_default kw) (Some Winner_GAME_NOT_COMPLETE) (kw_winner kw)"
  "conclusion_type (fst (Model_init kw clk)) =
     field_init (no_default kw) (Some Conclusion_GAME_NOT_COMPLETE) (kw_conclusion_type kw)"
  "last_turn (fst (Model_init kw clk)) = field_init (no_default kw) None (kw_last_turn kw)"
  "started_at (fst (Model_init kw clk)) = field_init (no_default kw) None (kw_started_at kw)"
  "ended_at (fst (Model_init kw clk)) = field_init (no_default kw) None (kw_ended_at kw)"
  by (simp_all add: Model_init_def Let_def split_beta)

lemma Model_init_opened_at:
  "opened_at (fst (Model_init kw clk)) =
     field_init (no_default kw) (Some (clk 0)) (kw_opened_at kw)"
  by (simp add: Model_init_def Let_def split_beta now_def field_init_def split: option.splits)

lemma field_init_given: "field_init nd d (Some v) = v"
  by (simp add: field_init_def)

lemma field_init_default: "field_init False d None = d"
  by (simp add: field_init_def)

text \<open>
  Claim C7. A newly created game is one built by the constructor from the field
  defaults with no \<open>away\<close>, \<open>current_turn\<close> or \<open>_turn_number\<close> argument (the scenario of
  the specification gives a host and the two times only). For every such game,
  \<open>home_time\<close> and \<open>away_time\<close> equal \<open>starting_time\<close>, which is the value given for it
  (\<open>None\<close> when none is given), the turn number is 1, the current side is \<open>HOME\<close> and
  \<open>away\<close> is \<open>None\<close>.
\<close>

theorem Game_init_new:
  assumes "\<not> no_default kw" and "kw_away kw = None" and "kw_current_turn kw = None"
    and "kw_u_turn_number kw = None"
  shows "home_time (fst (Game_init kw clk)) = starting_time (fst (Game_init kw clk)) \<and>
         away_time (fst (Game_init kw clk)) = starting_time (fst (Game_init kw clk)) \<and>
         starting_time (fst (Game_init kw clk)) =
           (case kw_starting_time kw of None \<Rightarrow> None | Some st \<Rightarrow> st) \<and>
         u_turn_number (fst (Game_init kw clk)) = Some 1 \<and>
         TurnCounter_int (fst (Game_init kw clk)) = Some 1 \<and>
         current_turn (fst (Game_init kw clk)) = Some HOME \<and>
         away (fst (Game_init kw clk)) = None"
  using assms
  by (simp add: Game_init_eq Model_init_fields field_init_given field_init_default
      TurnCounter_int_def split: option.splits)

theorem Game_init_new_witness:
  "\<not> no_default new_kwargs \<and> kw_away new_kwargs = None \<and> kw_current_turn new_kwargs = None \<and>
   kw_u_turn_number new_kwargs = None \<and> kw_starting_time new_kwargs = Some (Some 600000000) \<and>
   home_time (fst (Game_init new_kwargs clock0)) = Some 600000000 \<and>
   away_time (fst (Game_init new_kwargs clock0)) = Some 600000000 \<and>
   starting_time (fst (Game_init new_kwargs clock0)) = Some 600000000 \<and>
   u_turn_number (fst (Game_init new_kwargs clock0)) = Some 1 \<and>
   current_turn (fst (Game_init new_kwargs clock0)) = Some HOME \<and>
   away (fst (Game_init new_kwargs clock0)) = None"
proof -
  have h: "\<not> no_default new_kwargs" "kw_away new_kwargs = None"
    "kw_current_turn new_kwargs = None" "kw_u_turn_number new_kwargs = None"
    by (simp_all add: new_kwargs_def no_kwargs_def)
  have st: "kw_starting_time new_kwargs = Some (Some 600000000)"
    by (simp add: new_kwargs_def no_kwargs_def)
  show ?thesis using Game_init_new [OF h, of clock0] h st by simp
qed

text \<open>
  Claim C10. For every call of the constructor, whatever \<open>home_time\<close> and \<open>away_time\<close>
  the arguments give (also under \<open>__no_default__\<close>, as for a stored row): afterwards
  \<open>home_time\<close> and \<open>away_time\<close> both equal \<open>starting_time\<close>, and every other field that
  the arguments give holds the value given.
\<close>

theorem Game_init_overwrites_times:
  "home_time (fst (Game_init kw clk)) = starting_time (fst (Game_init kw clk)) \<and>
   away_time (fst (Game_init kw clk)) = starting_time (fst (Game_init kw clk)) \<and>
   (\<forall>v. kw_starting_time kw = Some v \<longrightarrow>
      starting_time (fst (Game_init kw clk)) = v \<and> home_time (fst (Game_init kw clk)) = v \<and>
      away_time (fst (Game_init kw clk)) = v) \<and>
   (\<forall>v. kw_game_id kw = Some v \<longrightarrow> game_id (fst (Game_init kw clk)) = v) \<and>
   (\<forall>v. kw_host kw = Some v \<longrightarrow> host (fst (Game_init kw clk)) = v) \<and>
   (\<forall>v. kw_away kw = Some v \<longrightarrow> away (fst (Game_init kw clk)) = v) \<and>
   (\<forall>v. kw_current_turn kw = Some v \<longrightarrow> current_turn (fst (Game_init kw clk)) = v) \<and>
   (\<forall>v. kw_u_turn_number kw = Some v \<longrightarrow> u_turn_number (fst (Game_init kw clk)) = v) \<and>
   (\<forall>v. kw_mode kw = Some v \<longrightarrow> mode (fst (Game_init kw clk)) = v) \<and>
   (\<forall>v. kw_time_per_turn kw = Some v \<longrightarrow> time_per_turn (fst (Game_init kw clk)) = v) \<and>
   (\<forall>v. kw_home_offering_draw kw = Some v \<longrightarrow>
      home_offering_draw (fst (Game_init kw clk)) = v) \<and>
   (\<forall>v. kw_away_offering_draw kw = Some v \<longrightarrow>
      away_offering_draw (fst (Game_init kw clk)) = v) \<and>
   (\<forall>v. kw_winner kw = Some v \<longrightarrow> winner (fst (Game_init kw clk)) = v) \<and>
   (\<forall>v. kw_conclusion_type kw = Some v \<longrightarrow> conclusion_type (fst (Game_init kw clk)) = v) \<and>
   (\<forall>v. kw_opened_at kw = Some v \<longrightarrow> opened_at (fst (Game_init kw clk)) = v) \<and>
   (\<forall>v. kw_last_turn kw = Some v \<longrightarrow> last_turn (fst (Game_init kw clk)) = v) \<and>
   (\<forall>v. kw_started_at kw = Some v \<longrightarrow> started_at (fst (Game_init kw clk)) = v) \<and>
   (\<forall>v. kw_ended_at kw = Some v \<longrightarrow> ended_at (fst (Game_init kw clk)) = v)"
  by (simp add: Game_init_eq Model_init_fields Model_init_opened_at field_init_given)

theorem Game_init_overwrites_times_witness:
  "kw_home_time row_kwargs = Some (Some 480000000) \<and>
   kw_away_time row_kwargs = Some (Some 515000000) \<and>
   kw_starting_time row_kwargs = Some (Some 600000000) \<and>
   home_time (fst (Game_init row_kwargs clock0)) = Some 600000000 \<and>
   away_time (fst (Game_init row_kwargs clock0)) = Some 600000000 \<and>
   kw_u_turn_number row_kwargs = Some (Some 4) \<and>
   u_turn_number (fst (Game_init row_kwargs clock0)) = Some 4 \<and>
   kw_away row_kwargs = Some (Some user2) \<and>
   away (fst (Game_init row_kwargs clock0)) = Some user2"
proof -
  have h: "kw_home_time row_kwargs = Some (Some 480000000)"
    "kw_away_time row_kwargs = Some (Some 515000000)"
    "kw_starting_time row_kwargs = Some (Some 600000000)"
    "kw_u_turn_number row_kwargs = Some (Some 4)"
    "kw_away row_kwargs = Some (Some user2)"
    by (simp_all add: row_kwargs_def)
  show ?thesis using Game_init_overwrites_times [of row_kwargs clock0] h by simp
qed

section \<open>Decoding an enum field: verified properties\<close>

lemma enum_values:
  "fst ` set Side = {1, 2}"
  "fst ` set Winner = {1, 2, 3, 4}"
  "fst ` set Conclusion = {1, 2, 3, 4, 5, 6, 7, 8}"
  "fst ` set PieceType = {1, 2, 3, 4, 5, 6}"
  by (auto simp: Side_def Winner_def Conclusion_def PieceType_def auto_def upt_rec)

lemma python_value_outside:
  "n \<notin> fst ` set options \<Longrightarrow> python_value options (Some n) = Inl ValueError"
  by (simp add: python_value_def enum_call_def map_of_eq_None_iff [THEN iffD2])

lemma python_value_in_range:
  "python_value Side (Some 1) = Inr HOME" "python_value Side (Some 2) = Inr AWAY"
  "python_value Winner (Some 4) = Inr Winner_DRAW"
  "python_value PieceType (Some 6) = Inr KING"
  "python_value Conclusion (Some 8) = Inr AGREED_DRAW"
  by (simp_all add: python_value_def enum_call_def Side_def Winner_def PieceType_def
      Conclusion_def auto_def upt_rec)

text \<open>
  Claim C6. For each of \<open>Side\<close>, \<open>Winner\<close>, \<open>Conclusion\<close> and \<open>PieceType\<close>, whose members
  carry the values 1 to 2, 1 to 4, 1 to 8 and 1 to 6, decoding an integer that is not
  one of the values of the class raises \<open>ValueError\<close>: no member, default or \<open>None\<close> is
  returned.
\<close>

theorem python_value_out_of_range:
  "(a \<notin> {1, 2} \<longrightarrow> python_value Side (Some a) = Inl ValueError) \<and>
   (b \<notin> {1, 2, 3, 4} \<longrightarrow> python_value Winner (Some b) = Inl ValueError) \<and>
   (c \<notin> {1, 2, 3, 4, 5, 6, 7, 8} \<longrightarrow> python_value Conclusion (Some c) = Inl ValueError) \<and>
   (d \<notin> {1, 2, 3, 4, 5, 6} \<longrightarrow> python_value PieceType (Some d) = Inl ValueError)"
  using python_value_outside [of a Side] python_value_outside [of b Winner]
    python_value_outside [of c Conclusion] python_value_outside [of d PieceType]
  by (simp only: enum_values) blast

theorem python_value_out_of_range_witness:
  "python_value Side (Some 3) = Inl ValueError \<and>
   python_value Winner (Some 0) = Inl ValueError \<and>
   python_value Conclusion (Some 9) = Inl ValueError \<and>
   python_value PieceType (Some (- 1)) = Inl ValueError"
  using python_value_out_of_range [of 3 0 9 "- 1"] by simp

end
